theory Spec2Isabelle
  imports Main "HOL-Library.Word"
begin

section \<open>The serialisation pipeline of \<^verbatim>\<open>syft/serde.py\<close>\<close>

text \<open>
  The module turns a Python object into bytes in three steps (simplify, serialise with
  msgpack, compress with lz4) and back (decompress, deserialise, detail). Which
  simplifier or detailer runs is decided by two module-level dictionaries keyed by the
  exact type of the object. The embedding below keeps the functions of the module under
  their names, without the leading underscore, which an Isabelle name cannot carry.
\<close>

subsection \<open>Python values, their types, and exceptions\<close>

type_synonym byte = "8 word"

text \<open>
  The exact runtime type of a value, what \<^verbatim>\<open>type(obj)\<close> returns. A user-defined
  class is named and carries its base class, so that a subclass of \<^verbatim>\<open>list\<close> has a type of
  its own.
\<close>

datatype pytype =
    TNone | TBool | TInt | TFloat | TStr | TBytes
  | TList | TTuple | TSet | TDict
  | TTensor
  | TClass string pytype

text \<open>
  The values the module sees. A float is carried as its binary64 bit pattern (the module
  never computes with it); a \<^verbatim>\<open>torch.Tensor\<close> is opaque to the module and carries a payload
  of any type \<open>'t\<close>; a set carries its elements in iteration order. An instance of a
  user-defined class carries the class name, the base class and the value of the base
  part (the elements of a list subclass, say).
\<close>

datatype 't pyobj =
    PNone
  | PBool bool
  | PInt int
  | PFloat "64 word"
  | PStr string
  | PBytes "byte list"
  | PList "'t pyobj list"
  | PTuple "'t pyobj list"
  | PSet "'t pyobj list"
  | PDict "('t pyobj \<times> 't pyobj) list"
  | PTensor 't
  | PInstance string pytype "'t pyobj"

fun type_of :: "'t pyobj \<Rightarrow> pytype" where
  "type_of PNone = TNone"
| "type_of (PBool _) = TBool"
| "type_of (PInt _) = TInt"
| "type_of (PFloat _) = TFloat"
| "type_of (PStr _) = TStr"
| "type_of (PBytes _) = TBytes"
| "type_of (PList _) = TList"
| "type_of (PTuple _) = TTuple"
| "type_of (PSet _) = TSet"
| "type_of (PDict _) = TDict"
| "type_of (PTensor _) = TTensor"
| "type_of (PInstance name base _) = TClass name base"

text \<open>
  The proper superclasses of a type, nearest first (\<^verbatim>\<open>object\<close> left out). In Python
  \<^verbatim>\<open>bool\<close> is a subclass of \<^verbatim>\<open>int\<close>.
\<close>

fun supertypes :: "pytype \<Rightarrow> pytype list" where
  "supertypes (TClass _ base) = base # supertypes base"
| "supertypes TBool = [TInt]"
| "supertypes _ = []"

text \<open>
  Exceptions are values: \<open>Inl\<close> of a result is a raised exception. \<open>KeyError\<close> and
  \<open>TypeError\<close> are the two the module's own control flow depends on; any other
  exception class is named.
\<close>

datatype error = KeyError | TypeError | Raised string

type_synonym 'a result = "error + 'a"

subsection \<open>The libraries the module calls\<close>

text \<open>
  \<^verbatim>\<open>pickle\<close>, \<^verbatim>\<open>msgpack\<close>, \<^verbatim>\<open>lz4.frame\<close> and the built-in constructor \<^verbatim>\<open>set\<close> (whose result
  depends on the hashes and on \<^verbatim>\<open>==\<close> of its elements) are not part of the module. They
  are parameters of the model: any of them may raise.
\<close>

record 't env =
  pickle_dumps :: "'t pyobj \<Rightarrow> byte list result"
  pickle_loads :: "byte list \<Rightarrow> 't pyobj result"
  msgpack_dumps :: "'t pyobj \<Rightarrow> byte list result"
  msgpack_loads :: "byte list \<Rightarrow> 't pyobj result"
  lz4_frame_compress :: "byte list \<Rightarrow> byte list result"
  lz4_frame_decompress :: "byte list \<Rightarrow> byte list result"
  set_of :: "'t pyobj list \<Rightarrow> 't pyobj list result"

subsection \<open>Chosen compression algorithm\<close>

definition compress :: "'t env \<Rightarrow> byte list \<Rightarrow> byte list result" where
  "compress env decompressed_input_bin = lz4_frame_compress env decompressed_input_bin"

definition decompress :: "'t env \<Rightarrow> byte list \<Rightarrow> byte list result" where
  "decompress env compressed_input_bin = lz4_frame_decompress env compressed_input_bin"

subsection \<open>Torch tensor\<close>

text \<open>\<^verbatim>\<open>pickle.dumps\<close> returns a \<^verbatim>\<open>bytes\<close> object.\<close>

definition simplify_torch_tensor :: "'t env \<Rightarrow> 't pyobj \<Rightarrow> 't pyobj result" where
  "simplify_torch_tensor env tensor =
     (case pickle_dumps env tensor of Inl e \<Rightarrow> Inl e | Inr b \<Rightarrow> Inr (PBytes b))"

text \<open>\<^verbatim>\<open>pickle.loads\<close> raises \<^verbatim>\<open>TypeError\<close> on an argument that is not bytes-like.\<close>

definition detail_torch_tensor :: "'t env \<Rightarrow> 't pyobj \<Rightarrow> 't pyobj result" where
  "detail_torch_tensor env tensor =
     (case tensor of PBytes b \<Rightarrow> pickle_loads env b | _ \<Rightarrow> Inl TypeError)"

subsection \<open>The two registries\<close>

text \<open>
  The dictionaries \<^verbatim>\<open>simplifiers\<close> and \<^verbatim>\<open>detailers\<close> map a type to a function of the
  module. The functions are named by a tag, since the collection functions call back
  into the router that reads the dictionary.
\<close>

datatype simplifier = Simplify_torch_tensor | Simplify_collection

datatype detailer = Detail_torch_tensor | Detail_collection

definition simplifiers :: "pytype \<rightharpoonup> simplifier" where
  "simplifiers =
     Map.empty
       (TTensor \<mapsto> Simplify_torch_tensor,
        TTuple \<mapsto> Simplify_collection,
        TList \<mapsto> Simplify_collection,
        TSet \<mapsto> Simplify_collection)"

definition detailers :: "pytype \<rightharpoonup> detailer" where
  "detailers =
     Map.empty
       (TTuple \<mapsto> Detail_collection,
        TList \<mapsto> Detail_collection,
        TBytes \<mapsto> Detail_torch_tensor)"

subsection \<open>Collections and the simplification router\<close>

text \<open>
  \<open>simplify\<close> is \<^verbatim>\<open>_simplify\<close>: the body of its \<^verbatim>\<open>try\<close> is the dictionary lookup and the
  call of the function found, and \<^verbatim>\<open>except KeyError\<close> returns the object. A missing key
  is the \<open>None\<close> of the lookup; a \<open>KeyError\<close> that the called function raises is caught
  by the same handler. \<open>call_simplifier\<close> is the call of the function the dictionary
  holds. \<open>simplify_collection\<close> is \<^verbatim>\<open>_simplify_collection\<close>; its loop over the parts is
  \<open>simplify_pieces\<close>, which stops at the first part that raises; its last line
  rebuilds a collection of the type of the input. Only lists, tuples and sets reach it
  through the dictionary.
\<close>

fun simplify :: "'t env \<Rightarrow> 't pyobj \<Rightarrow> 't pyobj result"
  and call_simplifier :: "'t env \<Rightarrow> simplifier \<Rightarrow> 't pyobj \<Rightarrow> 't pyobj result"
  and simplify_collection :: "'t env \<Rightarrow> 't pyobj \<Rightarrow> 't pyobj result"
  and simplify_pieces :: "'t env \<Rightarrow> 't pyobj list \<Rightarrow> 't pyobj list result"
where
  "simplify env obj =
     (case simplifiers (type_of obj) of
        None \<Rightarrow> Inr obj
      | Some f \<Rightarrow>
          (case call_simplifier env f obj of
             Inl KeyError \<Rightarrow> Inr obj
           | Inl e \<Rightarrow> Inl e
           | Inr simple \<Rightarrow> Inr simple))"
| "call_simplifier env Simplify_torch_tensor obj = simplify_torch_tensor env obj"
| "call_simplifier env Simplify_collection obj = simplify_collection env obj"
| "simplify_collection env (PList parts) =
     (case simplify_pieces env parts of
        Inl e \<Rightarrow> Inl e
      | Inr pieces \<Rightarrow> Inr (PList pieces))"
| "simplify_collection env (PTuple parts) =
     (case simplify_pieces env parts of
        Inl e \<Rightarrow> Inl e
      | Inr pieces \<Rightarrow> Inr (PTuple pieces))"
| "simplify_collection env (PSet parts) =
     (case simplify_pieces env parts of
        Inl e \<Rightarrow> Inl e
      | Inr pieces \<Rightarrow>
          (case set_of env pieces of
             Inl e \<Rightarrow> Inl e
           | Inr elems \<Rightarrow> Inr (PSet elems)))"
| "simplify_collection env _ = Inl TypeError"
| "simplify_pieces env [] = Inr []"
| "simplify_pieces env (part # parts) =
     (case simplify env part of
        Inl e \<Rightarrow> Inl e
      | Inr piece \<Rightarrow>
          (case simplify_pieces env parts of
             Inl e \<Rightarrow> Inl e
           | Inr pieces \<Rightarrow> Inr (piece # pieces)))"

subsection \<open>Detailing\<close>

text \<open>
  \<open>detail\<close> is \<^verbatim>\<open>_detail\<close>: it asks whether the type is a key of \<^verbatim>\<open>detailers\<close> and calls the
  function found, outside any \<^verbatim>\<open>try\<close>. \<open>detail_collection\<close> is \<^verbatim>\<open>_detail_collection\<close>,
  which returns the list \<^verbatim>\<open>pieces\<close> whatever collection it was given; its loop is
  \<open>detail_pieces\<close>.
\<close>

fun detail :: "'t env \<Rightarrow> 't pyobj \<Rightarrow> 't pyobj result"
  and call_detailer :: "'t env \<Rightarrow> detailer \<Rightarrow> 't pyobj \<Rightarrow> 't pyobj result"
  and detail_collection :: "'t env \<Rightarrow> 't pyobj \<Rightarrow> 't pyobj result"
  and detail_pieces :: "'t env \<Rightarrow> 't pyobj list \<Rightarrow> 't pyobj list result"
where
  "detail env obj =
     (case detailers (type_of obj) of
        Some f \<Rightarrow> call_detailer env f obj
      | None \<Rightarrow> Inr obj)"
| "call_detailer env Detail_torch_tensor obj = detail_torch_tensor env obj"
| "call_detailer env Detail_collection obj = detail_collection env obj"
| "detail_collection env (PList parts) =
     (case detail_pieces env parts of
        Inl e \<Rightarrow> Inl e
      | Inr pieces \<Rightarrow> Inr (PList pieces))"
| "detail_collection env (PTuple parts) =
     (case detail_pieces env parts of
        Inl e \<Rightarrow> Inl e
      | Inr pieces \<Rightarrow> Inr (PList pieces))"
| "detail_collection env (PSet parts) =
     (case detail_pieces env parts of
        Inl e \<Rightarrow> Inl e
      | Inr pieces \<Rightarrow> Inr (PList pieces))"
| "detail_collection env _ = Inl TypeError"
| "detail_pieces env [] = Inr []"
| "detail_pieces env (part # parts) =
     (case detail env part of
        Inl e \<Rightarrow> Inl e
      | Inr piece \<Rightarrow>
          (case detail_pieces env parts of
             Inl e \<Rightarrow> Inl e
           | Inr pieces \<Rightarrow> Inr (piece # pieces)))"

subsection \<open>High level public functions\<close>

text \<open>
  The second parameter of \<^verbatim>\<open>serialize\<close> is named \<^verbatim>\<open>compress\<close>, with default \<^verbatim>\<open>True\<close>. Inside
  the function that name is the parameter, not the module-level function \<^verbatim>\<open>compress\<close>,
  so \<^verbatim>\<open>compress(binary)\<close> calls the argument. An argument is a boolean, or a callable
  taking bytes; calling a boolean raises \<^verbatim>\<open>TypeError\<close>, and a callable is true in a
  condition.
\<close>

datatype arg = Flag bool | Callable "byte list \<Rightarrow> byte list result"

fun truthy :: "arg \<Rightarrow> bool" where
  "truthy (Flag b) = b"
| "truthy (Callable _) = True"

fun call :: "arg \<Rightarrow> byte list \<Rightarrow> byte list result" where
  "call (Flag _) _ = Inl TypeError"
| "call (Callable f) binary = f binary"

definition serialize :: "'t env \<Rightarrow> 't pyobj \<Rightarrow> arg \<Rightarrow> byte list result" where
  "serialize env obj compress' =
     (case simplify env obj of
        Inl e \<Rightarrow> Inl e
      | Inr simple_objects \<Rightarrow>
          (case msgpack_dumps env simple_objects of
             Inl e \<Rightarrow> Inl e
           | Inr binary \<Rightarrow>
               if truthy compress' then call compress' binary else Inr binary))"

definition deserialize :: "'t env \<Rightarrow> byte list \<Rightarrow> arg \<Rightarrow> 't pyobj result" where
  "deserialize env binary compressed =
     (case (if truthy compressed then decompress env binary else Inr binary) of
        Inl e \<Rightarrow> Inl e
      | Inr binary' \<Rightarrow>
          (case msgpack_loads env binary' of
             Inl e \<Rightarrow> Inl e
           | Inr simple_objects \<Rightarrow> detail env simple_objects))"

subsection \<open>Compositions the properties speak of\<close>

text \<open>Simplify, then detail the result; an exception of the first step ends the run.\<close>

definition detail_simplify :: "'t env \<Rightarrow> 't pyobj \<Rightarrow> 't pyobj result" where
  "detail_simplify env v =
     (case simplify env v of Inl e \<Rightarrow> Inl e | Inr simple \<Rightarrow> detail env simple)"

text \<open>Serialize, then deserialize the message with the same compression flag.\<close>

definition round_trip :: "'t env \<Rightarrow> 't pyobj \<Rightarrow> bool \<Rightarrow> 't pyobj result" where
  "round_trip env obj flag =
     (case serialize env obj (Flag flag) of
        Inl e \<Rightarrow> Inl e
      | Inr message \<Rightarrow> deserialize env message (Flag flag))"

subsection \<open>Sample libraries for running the module on concrete inputs\<close>

text \<open>
  The theorems hold for every \<open>env\<close>. To run the module on a concrete input the
  libraries are instantiated by small samples over tensors whose payload is a byte list:
  a pickle that writes the protocol byte \<open>0x80\<close> before the payload and raises
  \<^verbatim>\<open>EOFError\<close> on empty input, as \<^verbatim>\<open>pickle.loads(b'')\<close> does; the msgpack encoding of
  \<^verbatim>\<open>None\<close>, the booleans and the integers 0 to 127 (one byte each, as msgpack writes
  them); a compressor that puts one byte before its input; and a set constructor that
  drops repeated elements.
\<close>

definition sample_pickle_dumps :: "byte list pyobj \<Rightarrow> byte list result" where
  "sample_pickle_dumps obj =
     (case obj of PTensor t \<Rightarrow> Inr (0x80 # t) | _ \<Rightarrow> Inl (Raised ''PicklingError''))"

definition sample_pickle_loads :: "byte list \<Rightarrow> byte list pyobj result" where
  "sample_pickle_loads b =
     (case b of
        [] \<Rightarrow> Inl (Raised ''EOFError'')
      | x # t \<Rightarrow> if x = 0x80 then Inr (PTensor t) else Inl (Raised ''UnpicklingError''))"

definition sample_msgpack_dumps :: "byte list pyobj \<Rightarrow> byte list result" where
  "sample_msgpack_dumps obj =
     (case obj of
        PNone \<Rightarrow> Inr [0xc0]
      | PBool b \<Rightarrow> Inr [if b then 0xc3 else 0xc2]
      | PInt i \<Rightarrow> if 0 \<le> i \<and> i < 128 then Inr [word_of_int i] else Inl TypeError
      | _ \<Rightarrow> Inl TypeError)"

definition sample_msgpack_loads :: "byte list \<Rightarrow> byte list pyobj result" where
  "sample_msgpack_loads b =
     (case b of
        [x] \<Rightarrow>
          if x = 0xc0 then Inr PNone
          else if x = 0xc2 then Inr (PBool False)
          else if x = 0xc3 then Inr (PBool True)
          else if x < 0x80 then Inr (PInt (uint x))
          else Inl (Raised ''UnpackException'')
      | _ \<Rightarrow> Inl (Raised ''UnpackException''))"

definition sample_compress :: "byte list \<Rightarrow> byte list result" where
  "sample_compress b = Inr (0x04 # b)"

definition sample_decompress :: "byte list \<Rightarrow> byte list result" where
  "sample_decompress b =
     (case b of
        [] \<Rightarrow> Inl (Raised ''RuntimeError'')
      | x # rest \<Rightarrow> if x = 0x04 then Inr rest else Inl (Raised ''RuntimeError''))"

definition sample_env :: "byte list env" where
  "sample_env =
     \<lparr> pickle_dumps = sample_pickle_dumps,
       pickle_loads = sample_pickle_loads,
       msgpack_dumps = sample_msgpack_dumps,
       msgpack_loads = sample_msgpack_loads,
       lz4_frame_compress = sample_compress,
       lz4_frame_decompress = sample_decompress,
       set_of = (\<lambda>xs. Inr (remdups xs)) \<rparr>"

text \<open>A pickle that raises the given exception on every object; the rest as above.\<close>

definition raising_pickle :: "error \<Rightarrow> byte list env" where
  "raising_pickle e = sample_env \<lparr> pickle_dumps := (\<lambda>obj. Inl e) \<rparr>"

subsection \<open>The specification's words\<close>

text \<open>
  \<open>encode_message_spec\<close> follows the specification, not the module: simplify the
  object, encode the wire value, and if compression is asked for return \<open>compress\<close> of
  the raw bytes, else the raw bytes. It is what \<open>serialize\<close> is compared with.
\<close>

definition encode_message_spec :: "'t env \<Rightarrow> 't pyobj \<Rightarrow> bool \<Rightarrow> byte list result" where
  "encode_message_spec env obj use_compression =
     (case simplify env obj of
        Inl e \<Rightarrow> Inl e
      | Inr wire_value \<Rightarrow>
          (case msgpack_dumps env wire_value of
             Inl e \<Rightarrow> Inl e
           | Inr raw \<Rightarrow> if use_compression then compress env raw else Inr raw))"

text \<open>
  The objects that the two routers carry there and back when pickle restores every
  tensor: the values msgpack writes as they are, tensors, and lists of such objects.
  Bytes are left out (they are unpickled on the way back), and so are tuples and sets
  (they come back as lists, or not at all).
\<close>

fun supported :: "'t pyobj \<Rightarrow> bool" where
  "supported PNone = True"
| "supported (PBool _) = True"
| "supported (PInt _) = True"
| "supported (PFloat _) = True"
| "supported (PStr _) = True"
| "supported (PTensor _) = True"
| "supported (PList parts) = (\<forall>part \<in> set parts. supported part)"
| "supported _ = False"

section \<open>Properties\<close>

text \<open>
  The routers are unfolded by name where a proof needs it: each is one equation for
  every object.
\<close>

declare simplify.simps [simp del]
declare detail.simps [simp del]

lemmas module_defs =
  simplify.simps detail.simps simplifiers_def detailers_def
  simplify_torch_tensor_def detail_torch_tensor_def
  serialize_def deserialize_def compress_def decompress_def

lemmas sample_defs =
  sample_env_def sample_pickle_dumps_def sample_pickle_loads_def
  sample_msgpack_dumps_def sample_msgpack_loads_def sample_compress_def sample_decompress_def

subsection \<open>The registries\<close>

lemma simplifiers_collection_types:
  "simplifiers t = Some Simplify_collection \<longleftrightarrow> t = TList \<or> t = TTuple \<or> t = TSet"
  by (auto simp: simplifiers_def split: if_splits)

lemma detailers_collection_types:
  "detailers t = Some Detail_collection \<longleftrightarrow> t = TList \<or> t = TTuple"
  by (auto simp: detailers_def split: if_splits)

text \<open>
  The collection functions are called on lists, tuples and sets only, so their last
  equation is never used by the routers.
\<close>

lemma simplify_collection_reached:
  assumes "simplifiers (type_of obj) = Some Simplify_collection"
  shows "\<exists>parts. obj = PList parts \<or> obj = PTuple parts \<or> obj = PSet parts"
  using assms by (cases obj) (simp_all add: simplifiers_def)

lemma detail_collection_reached:
  assumes "detailers (type_of obj) = Some Detail_collection"
  shows "\<exists>parts. obj = PList parts \<or> obj = PTuple parts"
  using assms by (cases obj) (simp_all add: detailers_def)

subsection \<open>The routers\<close>

lemma simplify_unregistered:
  "simplifiers (type_of v) = None \<Longrightarrow> simplify env v = Inr v"
  by (simp add: simplify.simps)

lemma detail_unregistered:
  "detailers (type_of v) = None \<Longrightarrow> detail env v = Inr v"
  by (simp add: detail.simps)

text \<open>
  What the handler of \<open>simplify\<close> does with an exception of the function it called:
  a \<open>KeyError\<close> is caught, any other exception goes on to the caller. \<open>detail\<close> has no
  handler.
\<close>

lemma simplify_catches_KeyError:
  assumes "simplifiers (type_of obj) = Some f"
    and "call_simplifier env f obj = Inl KeyError"
  shows "simplify env obj = Inr obj"
  using assms by (simp add: simplify.simps)

lemma simplify_propagates_other_errors:
  assumes "simplifiers (type_of obj) = Some f"
    and "call_simplifier env f obj = Inl e"
    and "e \<noteq> KeyError"
  shows "simplify env obj = Inl e"
  using assms by (cases e) (simp_all add: simplify.simps)

lemma detail_propagates_errors:
  assumes "detailers (type_of obj) = Some f"
    and "call_detailer env f obj = Inl e"
  shows "detail env obj = Inl e"
  using assms by (simp add: detail.simps)

lemma simplify_not_KeyError: "simplify env obj \<noteq> Inl KeyError"
proof (cases "simplifiers (type_of obj)")
  case None
  then show ?thesis by (simp add: simplify.simps)
next
  case (Some f)
  then show ?thesis
    by (cases "call_simplifier env f obj") (auto simp: simplify.simps split: error.splits)
qed

subsection \<open>The loops over the parts of a collection\<close>

lemma simplify_pieces_Inr_map:
  "simplify_pieces env parts = Inr pieces \<Longrightarrow> map (simplify env) parts = map Inr pieces"
proof (induction parts arbitrary: pieces)
  case Nil
  then show ?case by simp
next
  case (Cons part parts)
  then show ?case by (auto split: sum.splits)
qed

lemma map_simplify_pieces:
  "map (simplify env) parts = map Inr pieces \<Longrightarrow> simplify_pieces env parts = Inr pieces"
proof (induction parts arbitrary: pieces)
  case Nil
  then show ?case by simp
next
  case (Cons part parts)
  then obtain piece rest where "pieces = piece # rest" by (cases pieces) auto
  with Cons show ?case by simp
qed

lemma simplify_pieces_not_KeyError: "simplify_pieces env parts \<noteq> Inl KeyError"
proof (induction parts)
  case Nil
  then show ?case by simp
next
  case (Cons part parts)
  then show ?case
    using simplify_not_KeyError [of env part] by (auto split: sum.splits)
qed

lemma detail_pieces_Inr_map:
  "detail_pieces env parts = Inr pieces \<Longrightarrow> map (detail env) parts = map Inr pieces"
proof (induction parts arbitrary: pieces)
  case Nil
  then show ?case by simp
next
  case (Cons part parts)
  then show ?case by (auto split: sum.splits)
qed

lemma map_detail_pieces:
  "map (detail env) parts = map Inr pieces \<Longrightarrow> detail_pieces env parts = Inr pieces"
proof (induction parts arbitrary: pieces)
  case Nil
  then show ?case by simp
next
  case (Cons part parts)
  then obtain piece rest where "pieces = piece # rest" by (cases pieces) auto
  with Cons show ?case by simp
qed

subsection \<open>There and back without compression\<close>

text \<open>
  When pickle restores every tensor it wrote, a supported object is simplified to a
  value that \<open>detail\<close> turns back into the object; when msgpack also restores that
  value, the message made without compression is read back as the object.
\<close>

lemma detail_simplify_supported:
  assumes pickle: "\<And>t. \<exists>b. pickle_dumps env (PTensor t) = Inr b \<and> pickle_loads env b = Inr (PTensor t)"
  shows "supported obj \<Longrightarrow> \<exists>w. simplify env obj = Inr w \<and> detail env w = Inr obj"
proof (induction obj)
  case (PList parts)
  then have "\<forall>part \<in> set parts. \<exists>w. simplify env part = Inr w \<and> detail env w = Inr part"
    by simp
  then obtain f
    where f: "\<forall>part \<in> set parts. simplify env part = Inr (f part) \<and> detail env (f part) = Inr part"
    by metis
  then have "map (simplify env) parts = map Inr (map f parts)"
    and "map (detail env) (map f parts) = map Inr parts"
    by simp_all
  then have "simplify_pieces env parts = Inr (map f parts)"
    and "detail_pieces env (map f parts) = Inr parts"
    by (simp_all only: map_simplify_pieces map_detail_pieces)
  then have "simplify env (PList parts) = Inr (PList (map f parts))"
    and "detail env (PList (map f parts)) = Inr (PList parts)"
    by (simp_all add: simplify.simps detail.simps simplifiers_def detailers_def)
  then show ?case by blast
next
  case (PTensor t)
  from pickle [of t] obtain b
    where "pickle_dumps env (PTensor t) = Inr b" and "pickle_loads env b = Inr (PTensor t)"
    by blast
  then have "simplify env (PTensor t) = Inr (PBytes b)"
    and "detail env (PBytes b) = Inr (PTensor t)"
    by (simp_all add: module_defs)
  then show ?case by blast
qed (simp_all add: simplify.simps detail.simps simplifiers_def detailers_def)

lemma round_trip_uncompressed:
  assumes pickle: "\<And>t. \<exists>b. pickle_dumps env (PTensor t) = Inr b \<and> pickle_loads env b = Inr (PTensor t)"
    and msgpack: "\<And>w. simplify env obj = Inr w \<Longrightarrow>
                    \<exists>m. msgpack_dumps env w = Inr m \<and> msgpack_loads env m = Inr w"
    and obj: "supported obj"
  shows "round_trip env obj False = Inr obj"
proof -
  from detail_simplify_supported [OF pickle obj] obtain w
    where w: "simplify env obj = Inr w" "detail env w = Inr obj"
    by blast
  from msgpack [OF w(1)] obtain m
    where m: "msgpack_dumps env w = Inr m" "msgpack_loads env m = Inr w"
    by blast
  from w m show ?thesis
    by (simp add: round_trip_def serialize_def deserialize_def)
qed

section \<open>The claims\<close>

text \<open>
  C1. With the compression flag true, \<open>serialize\<close> returns the module-level
  \<open>compress\<close> applied to the msgpack bytes of the simplified object. The module does
  not: the flag is the parameter named \<^verbatim>\<open>compress\<close>, so \<^verbatim>\<open>compress(binary)\<close> calls the
  boolean and raises \<open>TypeError\<close>. On the integer 1 the specification gives the
  compressed bytes and the module raises; with the flag true the module never returns a
  message, whatever the object and the libraries; with the flag false it agrees with the
  specification.
\<close>

theorem serialize_calls_its_flag:
  "serialize sample_env (PInt 1) (Flag True) = Inl TypeError \<and>
   encode_message_spec sample_env (PInt 1) True = Inr [0x04, 0x01] \<and>
   serialize env obj (Flag True) \<noteq> Inr message \<and>
   serialize env obj (Flag False) = encode_message_spec env obj False"
proof -
  have a: "serialize sample_env (PInt 1) (Flag True) = Inl TypeError"
    by (simp add: module_defs sample_defs)
  have b: "encode_message_spec sample_env (PInt 1) True = Inr [0x04, 0x01]"
    by (simp add: encode_message_spec_def module_defs sample_defs)
  have c: "serialize env obj (Flag True) \<noteq> Inr message"
    by (simp add: serialize_def split: sum.splits)
  have d: "serialize env obj (Flag False) = encode_message_spec env obj False"
    by (simp add: serialize_def encode_message_spec_def split: sum.splits)
  from a b c d show ?thesis by blast
qed

text \<open>
  C2. A supported object comes back from \<open>deserialize\<close> of \<open>serialize\<close>, with
  compression and without. With compression the module raises \<open>TypeError\<close> in
  \<open>serialize\<close> (the call of the flag, as in C1), for the integer 1 and for every other
  object; without compression the integer 1 comes back.
\<close>

theorem round_trip_compressed_raises:
  "round_trip sample_env (PInt 1) True = Inl TypeError \<and>
   round_trip sample_env (PInt 1) False = Inr (PInt 1) \<and>
   round_trip env obj True \<noteq> Inr back"
proof -
  have a: "round_trip sample_env (PInt 1) True = Inl TypeError"
    by (simp add: round_trip_def module_defs sample_defs)
  have b: "round_trip sample_env (PInt 1) False = Inr (PInt 1)"
    by (simp add: round_trip_def module_defs sample_defs)
  have c: "round_trip env obj True \<noteq> Inr back"
    by (simp add: round_trip_def serialize_def split: sum.splits)
  from a b c show ?thesis by blast
qed

text \<open>
  C3. A value whose exact type is not a key of \<open>simplifiers\<close> is returned by
  \<open>simplify\<close> as it is.
\<close>

theorem simplify_pass_through:
  "simplifiers (type_of v) = None \<Longrightarrow> simplify env v = Inr v"
  by (rule simplify_unregistered)

theorem simplify_pass_through_witness:
  "simplifiers (type_of (PStr ''a'' :: byte list pyobj)) = None \<and>
   simplify sample_env (PStr ''a'') = Inr (PStr ''a'')"
proof -
  have h: "simplifiers (type_of (PStr ''a'' :: byte list pyobj)) = None"
    by (simp add: simplifiers_def)
  from simplify_pass_through [OF h, of sample_env] h show ?thesis by simp
qed

text \<open>
  C4, as stated: \<open>detail\<close> of \<open>simplify\<close> gives back every primitive value, bytes
  included. It does not for bytes: \<open>simplify\<close> leaves them as they are and \<open>detail\<close>
  unpickles them, so the empty bytes raise \<^verbatim>\<open>EOFError\<close>.
\<close>

theorem detail_simplify_bytes_counterexample:
  "type_of (PBytes [] :: byte list pyobj) = TBytes \<and>
   detail_simplify sample_env (PBytes []) = Inl (Raised ''EOFError'') \<and>
   detail_simplify sample_env (PBytes []) \<noteq> Inr (PBytes [])"
  by (simp add: detail_simplify_def module_defs sample_defs)

text \<open>
  C4, amended: \<open>detail\<close> of \<open>simplify\<close> gives back every \<^verbatim>\<open>None\<close>, boolean, integer,
  float and string; on bytes it is \<^verbatim>\<open>pickle.loads\<close> of the bytes.
\<close>

theorem detail_simplify_primitive:
  "(type_of v \<in> {TNone, TBool, TInt, TFloat, TStr} \<longrightarrow> detail_simplify env v = Inr v) \<and>
   detail_simplify env (PBytes b) = pickle_loads env b"
proof -
  have "detail_simplify env v = Inr v" if "type_of v \<in> {TNone, TBool, TInt, TFloat, TStr}"
  proof -
    from that have "simplifiers (type_of v) = None" and "detailers (type_of v) = None"
      by (auto simp: simplifiers_def detailers_def)
    then show ?thesis
      by (simp add: detail_simplify_def simplify_unregistered detail_unregistered)
  qed
  moreover have "detail_simplify env (PBytes b) = pickle_loads env b"
    by (simp add: detail_simplify_def module_defs)
  ultimately show ?thesis by blast
qed

theorem detail_simplify_primitive_witness:
  "type_of (PFloat 0x3FF8000000000000 :: byte list pyobj) \<in> {TNone, TBool, TInt, TFloat, TStr} \<and>
   detail_simplify sample_env (PFloat 0x3FF8000000000000) = Inr (PFloat 0x3FF8000000000000) \<and>
   detail_simplify sample_env (PBytes [0x80, 0x09]) = Inr (PTensor [0x09])"
proof -
  have h: "type_of (PFloat 0x3FF8000000000000 :: byte list pyobj)
             \<in> {TNone, TBool, TInt, TFloat, TStr}"
    by simp
  have l: "pickle_loads sample_env [0x80, 0x09] = Inr (PTensor [0x09])"
    by (simp add: sample_defs)
  from detail_simplify_primitive [of "PFloat 0x3FF8000000000000" sample_env "[0x80, 0x09]"] h l
  show ?thesis by simp
qed

text \<open>
  C5. \<open>simplify\<close> of a list, a tuple or a set is a collection of the same kind. When
  the parts, taken in iteration order, simplify to \<open>pieces\<close>, the list and the tuple
  hold exactly \<open>pieces\<close>, in that order, and the set is what the constructor \<^verbatim>\<open>set\<close>
  makes of \<open>pieces\<close> (if the constructor raises, its exception is handled as any
  other of the called function).
\<close>

theorem simplify_keeps_kind:
  assumes "map (simplify env) parts = map Inr pieces"
  shows "simplify env (PList parts) = Inr (PList pieces) \<and>
         simplify env (PTuple parts) = Inr (PTuple pieces) \<and>
         simplify env (PSet parts) =
           (case set_of env pieces of
              Inr elems \<Rightarrow> Inr (PSet elems)
            | Inl KeyError \<Rightarrow> Inr (PSet parts)
            | Inl e \<Rightarrow> Inl e)"
proof -
  from assms have p: "simplify_pieces env parts = Inr pieces"
    by (rule map_simplify_pieces)
  show ?thesis
    by (simp add: p simplify.simps simplifiers_def split: sum.splits error.splits)
qed

theorem simplify_keeps_kind_witness:
  "map (simplify sample_env) [PTensor [0x01], PInt 2] = map Inr [PBytes [0x80, 0x01], PInt 2] \<and>
   simplify sample_env (PList [PTensor [0x01], PInt 2]) = Inr (PList [PBytes [0x80, 0x01], PInt 2]) \<and>
   simplify sample_env (PTuple [PTensor [0x01], PInt 2]) = Inr (PTuple [PBytes [0x80, 0x01], PInt 2]) \<and>
   simplify sample_env (PSet [PTensor [0x01], PInt 2]) = Inr (PSet [PBytes [0x80, 0x01], PInt 2])"
proof -
  have h: "map (simplify sample_env) [PTensor [0x01], PInt 2] = map Inr [PBytes [0x80, 0x01], PInt 2]"
    by (simp add: module_defs sample_defs)
  have s: "set_of sample_env [PBytes [0x80, 0x01], PInt 2] = Inr [PBytes [0x80, 0x01], PInt 2]"
    by (simp add: sample_defs)
  from simplify_keeps_kind [OF h] h s show ?thesis by simp
qed

text \<open>
  C6. \<open>detail\<close> of a list or of a tuple, the two kinds its dictionary sends to the
  collection function, is a list: when the parts detail to \<open>pieces\<close>, the result is
  the list of \<open>pieces\<close> in that order, for a tuple too.
\<close>

theorem detail_gives_list:
  assumes "map (detail env) parts = map Inr pieces"
  shows "detail env (PList parts) = Inr (PList pieces) \<and>
         detail env (PTuple parts) = Inr (PList pieces)"
proof -
  from assms have p: "detail_pieces env parts = Inr pieces"
    by (rule map_detail_pieces)
  show ?thesis
    by (simp add: p detail.simps detailers_def)
qed

theorem detail_gives_list_witness:
  "map (detail sample_env) [PBytes [0x80, 0x01], PInt 2] = map Inr [PTensor [0x01], PInt 2] \<and>
   detail sample_env (PList [PBytes [0x80, 0x01], PInt 2]) = Inr (PList [PTensor [0x01], PInt 2]) \<and>
   detail sample_env (PTuple [PBytes [0x80, 0x01], PInt 2]) = Inr (PList [PTensor [0x01], PInt 2])"
proof -
  have h: "map (detail sample_env) [PBytes [0x80, 0x01], PInt 2] = map Inr [PTensor [0x01], PInt 2]"
    by (simp add: module_defs sample_defs)
  from detail_gives_list [OF h] h show ?thesis by simp
qed

text \<open>
  C7. A collection function is registered for lists, tuples and sets in both
  dictionaries, so that \<open>detail\<close> of a set details its elements. The module registers
  the set in \<open>simplifiers\<close> only: \<open>detail\<close> returns every set as it is, and the pickled
  tensor inside a set stays bytes where the one inside a list is unpickled.
\<close>

theorem detail_set_passes_through:
  "simplifiers TSet = Some Simplify_collection \<and>
   detailers TSet = None \<and>
   detail env (PSet parts) = Inr (PSet parts) \<and>
   detail sample_env (PSet [PBytes [0x80, 0x07]]) = Inr (PSet [PBytes [0x80, 0x07]]) \<and>
   detail sample_env (PList [PBytes [0x80, 0x07]]) = Inr (PList [PTensor [0x07]])"
  by (simp add: module_defs sample_defs)

text \<open>
  C8. An exception of a registered simplifier, a \<open>KeyError\<close> included, reaches the
  caller of \<open>simplify\<close>. In the module a \<open>KeyError\<close> of \<^verbatim>\<open>pickle.dumps\<close> is caught by the
  handler meant for the missing key, and the tensor is returned as if it were simple;
  another exception of the same call reaches the caller, and so does a \<open>KeyError\<close> on
  the \<open>detail\<close> side.
\<close>

theorem simplify_swallows_KeyError:
  "simplify (raising_pickle KeyError) (PTensor [0x07]) = Inr (PTensor [0x07]) \<and>
   simplify (raising_pickle (Raised ''PicklingError'')) (PTensor [0x07]) =
     Inl (Raised ''PicklingError'') \<and>
   detail (sample_env \<lparr> pickle_loads := (\<lambda>b. Inl KeyError) \<rparr>) (PBytes [0x07]) = Inl KeyError \<and>
   simplify env (PTensor t) =
     (case pickle_dumps env (PTensor t) of
        Inl KeyError \<Rightarrow> Inr (PTensor t)
      | Inl e \<Rightarrow> Inl e
      | Inr b \<Rightarrow> Inr (PBytes b))"
proof -
  have a: "simplify (raising_pickle KeyError) (PTensor [0x07]) = Inr (PTensor [0x07])"
    by (simp add: raising_pickle_def module_defs sample_defs)
  have b: "simplify (raising_pickle (Raised ''PicklingError'')) (PTensor [0x07]) =
             Inl (Raised ''PicklingError'')"
    by (simp add: raising_pickle_def module_defs sample_defs)
  have c: "detail (sample_env \<lparr> pickle_loads := (\<lambda>b. Inl KeyError) \<rparr>) (PBytes [0x07]) =
             Inl KeyError"
    by (simp add: module_defs sample_defs)
  have d: "simplify env (PTensor t) =
             (case pickle_dumps env (PTensor t) of
                Inl KeyError \<Rightarrow> Inr (PTensor t)
              | Inl e \<Rightarrow> Inl e
              | Inr b \<Rightarrow> Inr (PBytes b))"
    by (simp add: module_defs split: sum.splits error.splits)
  from a b c d show ?thesis by blast
qed

text \<open>
  C9. Both routers look the exact type up: a value whose own type is not a key is
  returned as it is, whatever its superclasses. An instance of a user-defined class is
  returned as it is by both, also when the class extends \<^verbatim>\<open>list\<close>.
\<close>

theorem exact_type_lookup:
  "(simplifiers (type_of v) = None \<longrightarrow> simplify env v = Inr v) \<and>
   (detailers (type_of v) = None \<longrightarrow> detail env v = Inr v) \<and>
   simplify env (PInstance name base x) = Inr (PInstance name base x) \<and>
   detail env (PInstance name base x) = Inr (PInstance name base x)"
  by (simp add: simplify_unregistered detail_unregistered simplifiers_def detailers_def)

theorem exact_type_lookup_witness:
  "TList \<in> set (supertypes
     (type_of (PInstance ''MyList'' TList (PList [PTensor [0x07]]) :: byte list pyobj))) \<and>
   simplifiers TList = Some Simplify_collection \<and>
   detailers TList = Some Detail_collection \<and>
   simplifiers
     (type_of (PInstance ''MyList'' TList (PList [PTensor [0x07]]) :: byte list pyobj)) = None \<and>
   detailers
     (type_of (PInstance ''MyList'' TList (PList [PTensor [0x07]]) :: byte list pyobj)) = None \<and>
   simplify sample_env (PInstance ''MyList'' TList (PList [PTensor [0x07]])) =
     Inr (PInstance ''MyList'' TList (PList [PTensor [0x07]])) \<and>
   detail sample_env (PInstance ''MyList'' TList (PList [PTensor [0x07]])) =
     Inr (PInstance ''MyList'' TList (PList [PTensor [0x07]])) \<and>
   simplify sample_env (PList [PTensor [0x07]]) = Inr (PList [PBytes [0x80, 0x07]])"
proof -
  have s: "simplifiers (TClass ''MyList'' TList) = None"
    "detailers (TClass ''MyList'' TList) = None"
    "simplifiers TList = Some Simplify_collection"
    "detailers TList = Some Detail_collection"
    by (simp_all add: simplifiers_def detailers_def)
  have l: "simplify sample_env (PList [PTensor [0x07]]) = Inr (PList [PBytes [0x80, 0x07]])"
    by (simp add: module_defs sample_defs)
  from exact_type_lookup
    [of "PInstance ''MyList'' TList (PList [PTensor [0x07]])" sample_env
        "''MyList''" TList "PList [PTensor [0x07]]"]
    s l
  show ?thesis by simp
qed

text \<open>
  C10. A value whose exact type is \<^verbatim>\<open>bytes\<close> is given by \<open>detail\<close> to the tensor
  detailer, that is to \<^verbatim>\<open>pickle.loads\<close>, whatever the bytes are.
\<close>

theorem detail_bytes_unpickles:
  "type_of v = TBytes \<Longrightarrow>
   \<exists>b. v = PBytes b \<and> detail env v = detail_torch_tensor env v \<and>
       detail_torch_tensor env v = pickle_loads env b"
  by (cases v) (simp_all add: detail.simps detailers_def detail_torch_tensor_def)

theorem detail_bytes_unpickles_witness:
  "type_of (PBytes [0x01, 0x02] :: byte list pyobj) = TBytes \<and>
   detail sample_env (PBytes [0x01, 0x02]) = Inl (Raised ''UnpicklingError'')"
proof -
  have h: "type_of (PBytes [0x01, 0x02] :: byte list pyobj) = TBytes" by simp
  have l: "pickle_loads sample_env [0x01, 0x02] = Inl (Raised ''UnpicklingError'')"
    by (simp add: sample_defs)
  from detail_bytes_unpickles [OF h, of sample_env] h l show ?thesis by auto
qed

end
